theory Spec2Isabelle
  imports Main
begin

section \<open>Python values\<close>

text \<open>
  The values \<open>SQL.execute\<close> (src/cs50/sql.py) receives as keyword parameters and hands
  back. Every value carries its runtime class, since the literal renderer dispatches with
  \<open>isinstance\<close>. A float is kept as an uninterpreted payload: the renderer passes it on to
  the dialect's processor without looking at it.
\<close>

datatype pydate = Date (year: nat) (month: nat) (day: nat)

datatype pytime = Time (hour: nat) (minute: nat) (second: nat) (microsecond: nat)

datatype pyfloat = Finite (mantissa: int) (exponent: int) | Inf bool | NaN

datatype pyvalue =
    VBool bool
  | VDate pydate
  | VDatetime pydate pytime
  | VTime pytime
  | VFloat pyfloat
  | VInt int
  | VStr string
  | VNull
  | VNone
  | VList "pyvalue list"
  | VDict "(string \<times> pyvalue) list"
  | VOther string

text \<open>
  \<open>VNull\<close> is the object \<open>sqlalchemy.sql.null()\<close>, \<open>VNone\<close> is Python's \<open>None\<close>,
  \<open>VOther c\<close> is an instance of any other class \<open>c\<close> (bytes, tuple, Decimal, ...).

  \<open>isinstance\<close> follows Python's class hierarchy: \<open>bool\<close> is a subclass of \<open>int\<close>, and
  \<open>datetime.datetime\<close> is a subclass of \<open>datetime.date\<close>.
\<close>

fun isinstance_bool :: "pyvalue \<Rightarrow> bool" where
  "isinstance_bool (VBool b) = True"
| "isinstance_bool v = False"

fun isinstance_date :: "pyvalue \<Rightarrow> bool" where
  "isinstance_date (VDate d) = True"
| "isinstance_date (VDatetime d t) = True"
| "isinstance_date v = False"

fun isinstance_datetime :: "pyvalue \<Rightarrow> bool" where
  "isinstance_datetime (VDatetime d t) = True"
| "isinstance_datetime v = False"

fun isinstance_time :: "pyvalue \<Rightarrow> bool" where
  "isinstance_time (VTime t) = True"
| "isinstance_time v = False"

fun isinstance_float :: "pyvalue \<Rightarrow> bool" where
  "isinstance_float (VFloat x) = True"
| "isinstance_float v = False"

fun isinstance_int :: "pyvalue \<Rightarrow> bool" where
  "isinstance_int (VInt n) = True"
| "isinstance_int (VBool b) = True"
| "isinstance_int v = False"

fun isinstance_str :: "pyvalue \<Rightarrow> bool" where
  "isinstance_str (VStr s) = True"
| "isinstance_str v = False"

fun isinstance_Null :: "pyvalue \<Rightarrow> bool" where
  "isinstance_Null VNull = True"
| "isinstance_Null v = False"

text \<open>
  Under Python 3 there is no class \<open>long\<close>: the test at line 69 of the source is
  \<open>sys.version_info.major != 3 and isinstance(value, long)\<close>, whose left operand is false.
\<close>

definition sys_version_info_major :: nat where
  "sys_version_info_major = 3"

fun isinstance_long :: "pyvalue \<Rightarrow> bool" where
  "isinstance_long v = False"

text \<open>The payloads the branches read once the class test has passed.\<close>

fun bool_of :: "pyvalue \<Rightarrow> bool" where
  "bool_of (VBool b) = b"
| "bool_of v = False"

fun int_of_value :: "pyvalue \<Rightarrow> int" where
  "int_of_value (VInt n) = n"
| "int_of_value (VBool b) = (if b then 1 else 0)"
| "int_of_value v = 0"

fun float_of :: "pyvalue \<Rightarrow> pyfloat" where
  "float_of (VFloat x) = x"
| "float_of v = NaN"

fun str_of :: "pyvalue \<Rightarrow> string" where
  "str_of (VStr s) = s"
| "str_of v = []"

section \<open>strftime\<close>

text \<open>
  \<open>value.strftime(fmt)\<close> for the directives the source uses. A date formats its time
  fields as zero and a time formats its date fields as 1900-01-01, as Python does.
  \<open>%Y\<close> is written with at least four digits.
\<close>

definition digit_char :: "nat \<Rightarrow> char" where
  "digit_char n = char_of (48 + n mod 10)"

fun digits :: "nat \<Rightarrow> string" where
  "digits n = (if n < 10 then [digit_char n] else digits (n div 10) @ [digit_char n])"

definition zero_pad :: "nat \<Rightarrow> nat \<Rightarrow> string" where
  "zero_pad w n = replicate (w - length (digits n)) (CHR ''0'') @ digits n"

definition directive :: "pydate \<Rightarrow> pytime \<Rightarrow> char \<Rightarrow> string" where
  "directive d t c =
     (if c = CHR ''Y'' then zero_pad 4 (year d)
      else if c = CHR ''m'' then zero_pad 2 (month d)
      else if c = CHR ''d'' then zero_pad 2 (day d)
      else if c = CHR ''H'' then zero_pad 2 (hour t)
      else if c = CHR ''M'' then zero_pad 2 (minute t)
      else if c = CHR ''S'' then zero_pad 2 (second t)
      else [CHR ''%'', c])"

fun format_fields :: "pydate \<Rightarrow> pytime \<Rightarrow> string \<Rightarrow> string" where
  "format_fields d t [] = []"
| "format_fields d t [c] = [c]"
| "format_fields d t (c # x # cs) =
     (if c = CHR ''%'' then directive d t x @ format_fields d t cs
      else c # format_fields d t (x # cs))"

fun strftime :: "pyvalue \<Rightarrow> string \<Rightarrow> string" where
  "strftime (VDate d) fmt = format_fields d (Time 0 0 0 0) fmt"
| "strftime (VDatetime d t) fmt = format_fields d t fmt"
| "strftime (VTime t) fmt = format_fields (Date 1900 1 1) t fmt"
| "strftime v fmt = []"

section \<open>Exceptions\<close>

text \<open>
  An exception has a class, a message and the cause \<open>__cause__\<close> it is chained to. Every
  class listed is a subclass of \<open>Exception\<close>, so the handler \<open>except Exception\<close> of
  \<open>execute\<close> catches each of them; \<open>OtherException c\<close> is any further such class \<open>c\<close>.
\<close>

datatype exc_class =
    IntegrityError
  | RuntimeError
  | ArgumentError
  | TypeError
  | IndexError
  | ProgrammingError
  | OperationalError
  | ResourceClosedError
  | SAWarning
  | OtherException string

datatype exc = Exc (exc_class: exc_class) (exc_msg: string) (exc_cause: "exc option")

fun isinstance_IntegrityError :: "exc \<Rightarrow> bool" where
  "isinstance_IntegrityError (Exc c m k) = (c = IntegrityError)"

fun clear_cause :: "exc \<Rightarrow> exc" where
  "clear_cause (Exc c m k) = Exc c m None"

section \<open>The literal renderer\<close>

text \<open>
  The literal processors \<open>sqlalchemy.types.T().literal_processor(dialect)\<close> belong to
  SQLAlchemy, not to this repository: they are the fields of the dialect the renderer is
  given.
\<close>

record dialect =
  Boolean_literal :: "bool \<Rightarrow> string"
  String_literal :: "string \<Rightarrow> string"
  Float_literal :: "pyfloat \<Rightarrow> string"
  Integer_literal :: "int \<Rightarrow> string"
  NullType_literal :: "string"

text \<open>The inner function \<open>process\<close> (lines 41 to 81), branch by branch in source order.\<close>

definition process :: "dialect \<Rightarrow> pyvalue \<Rightarrow> exc + string" where
  "process dialect v =
     (if isinstance_bool v then Inr (Boolean_literal dialect (bool_of v))
      else if isinstance_date v then Inr (String_literal dialect (strftime v ''%Y-%m-%d''))
      else if isinstance_datetime v then
        Inr (String_literal dialect (strftime v ''%Y-%m-%d %H:%M:%S''))
      else if isinstance_time v then Inr (String_literal dialect (strftime v ''%H:%M:%S''))
      else if isinstance_float v then Inr (Float_literal dialect (float_of v))
      else if isinstance_int v then Inr (Integer_literal dialect (int_of_value v))
      else if sys_version_info_major \<noteq> 3 \<and> isinstance_long v then
        Inr (Integer_literal dialect (int_of_value v))
      else if isinstance_str v then Inr (String_literal dialect (str_of v))
      else if isinstance_Null v then Inr (NullType_literal dialect)
      else Inl (Exc RuntimeError ''unsupported value'' None))"

text \<open>
  The list comprehension \<open>[process(v) for v in value]\<close>: the first element that raises
  ends it.
\<close>

fun process_each :: "dialect \<Rightarrow> pyvalue list \<Rightarrow> exc + string list" where
  "process_each dialect [] = Inr []"
| "process_each dialect (v # vs) =
     (case process dialect v of
        Inl e \<Rightarrow> Inl e
      | Inr s \<Rightarrow> (case process_each dialect vs of
                  Inl e \<Rightarrow> Inl e
                | Inr ss \<Rightarrow> Inr (s # ss)))"

text \<open>\<open>sep.join(xs)\<close> of Python.\<close>

fun join :: "string \<Rightarrow> string list \<Rightarrow> string" where
  "join sep [] = []"
| "join sep [x] = x"
| "join sep (x # y # ys) = x @ sep @ join sep (y # ys)"

text \<open>
  \<open>type(value) is list\<close> holds of a list only, and not of an instance of a subclass.
\<close>

fun type_is_list :: "pyvalue \<Rightarrow> bool" where
  "type_is_list (VList vs) = True"
| "type_is_list v = False"

fun list_of :: "pyvalue \<Rightarrow> pyvalue list" where
  "list_of (VList vs) = vs"
| "list_of v = []"

definition process_literal_param :: "dialect \<Rightarrow> pyvalue \<Rightarrow> exc + string" where
  "process_literal_param dialect v =
     (if type_is_list v then
        (case process_each dialect (list_of v) of
           Inl e \<Rightarrow> Inl e
         | Inr ss \<Rightarrow> Inr (join '', '' ss))
      else process dialect v)"

section \<open>Classifying a statement\<close>

text \<open>
  The three tests \<open>re.search(r"^\s*KEYWORD\s+", statement, re.I)\<close>. The text is a string
  of 8-bit characters; among those, \<open>\s\<close> matches the code points 9 to 13, 28 to 32, 133
  and 160, and \<open>re.I\<close> identifies a letter of the keyword with its lower-case form only.
\<close>

definition isspace :: "char \<Rightarrow> bool" where
  "isspace c =
     (let n = (of_char c :: nat)
      in (9 \<le> n \<and> n \<le> 13) \<or> (28 \<le> n \<and> n \<le> 32) \<or> n = 133 \<or> n = 160)"

definition lower :: "char \<Rightarrow> char" where
  "lower c =
     (let n = (of_char c :: nat)
      in if 65 \<le> n \<and> n \<le> 90 then char_of (n + 32) else c)"

text \<open>The text left after the keyword when the text starts with it, whatever the case.\<close>

fun match_ci :: "string \<Rightarrow> string \<Rightarrow> string option" where
  "match_ci [] s = Some s"
| "match_ci (k # ks) [] = None"
| "match_ci (k # ks) (c # cs) = (if lower c = lower k then match_ci ks cs else None)"

text \<open>\<open>KEYWORD\s+\<close> at the start of a text: the keyword, then a whitespace character.\<close>

definition keyword_space :: "string \<Rightarrow> string \<Rightarrow> bool" where
  "keyword_space kw s =
     (case match_ci kw s of
        None \<Rightarrow> False
      | Some r \<Rightarrow> (case r of [] \<Rightarrow> False | c # cs \<Rightarrow> isspace c))"

text \<open>\<open>^\s*(?:K1|K2|...)\s+\<close>, searched in the statement.\<close>

definition re_search :: "string list \<Rightarrow> string \<Rightarrow> bool" where
  "re_search kws statement =
     list_ex (\<lambda>kw. keyword_space kw (dropWhile isspace statement)) kws"

section \<open>The library and the engine\<close>

text \<open>
  What \<open>execute\<close> calls and SQLAlchemy or the database decides is a parameter of the
  model. A row of a result is the list of the (field, value) items that \<open>dict(row)\<close> holds,
  in column order. Fetching the rows of a result may raise, as executing may.
\<close>

type_synonym row = "(string \<times> pyvalue) list"

record db_result =
  fetchall :: "exc + row list"
  lastrowid :: pyvalue
  rowcount :: int

text \<open>
  \<^item> \<open>compile_dialect\<close>: the dialect \<open>statement.compile\<close> hands to the literal renderer;
  \<^item> \<open>defines_bind text key\<close>: the text holds the bound parameter \<open>:key\<close>
    (\<open>bindparams\<close> raises \<open>ArgumentError\<close> when it does not);
  \<^item> \<open>literal_binds text lits\<close>: the text with each bound parameter replaced by its
    rendered literal;
  \<^item> \<open>backend_name\<close>: \<open>engine.url.get_backend_name()\<close>;
  \<^item> \<open>engine_execute db statement\<close>: \<open>engine.execute(statement)\<close> on the database
    \<open>db\<close>: the result or the exception raised, and the database afterwards. Warnings are
    exceptions here, since \<open>execute\<close> sets \<open>warnings.filterwarnings("error")\<close>.
\<close>

record 'db sqlalchemy =
  compile_dialect :: dialect
  defines_bind :: "string \<Rightarrow> string \<Rightarrow> bool"
  literal_binds :: "string \<Rightarrow> (string \<times> string) list \<Rightarrow> exc + string"
  backend_name :: string
  engine_execute :: "'db \<Rightarrow> string \<Rightarrow> (exc + db_result) \<times> 'db"

text \<open>\<open>result.first()\<close>: the first row, or \<open>None\<close> when there is none.\<close>

definition first :: "db_result \<Rightarrow> exc + row option" where
  "first result =
     (case fetchall result of
        Inl e \<Rightarrow> Inl e
      | Inr rows \<Rightarrow> (case rows of [] \<Rightarrow> Inr None | r # rs \<Rightarrow> Inr (Some r)))"

text \<open>
  \<open>result.first()[0]\<close>: subscripting \<open>None\<close> raises \<open>TypeError\<close>, and a row with no
  column has no item 0.
\<close>

definition first_item0 :: "db_result \<Rightarrow> exc + pyvalue" where
  "first_item0 result =
     (case first result of
        Inl e \<Rightarrow> Inl e
      | Inr None \<Rightarrow> Inl (Exc TypeError ''NoneType object is not subscriptable'' None)
      | Inr (Some r) \<Rightarrow>
          (case r of
             [] \<Rightarrow> Inl (Exc IndexError ''index out of range'' None)
           | kv # kvs \<Rightarrow> Inr (snd kv)))"

section \<open>execute\<close>

text \<open>
  The loop over \<open>params.items()\<close> (lines 99 to 107): \<open>None\<close> becomes \<open>NULL\<close>, and each
  parameter is bound to the statement.
\<close>

fun translate_None :: "pyvalue \<Rightarrow> pyvalue" where
  "translate_None VNone = VNull"
| "translate_None v = v"

fun bindparams :: "'db sqlalchemy \<Rightarrow> string \<Rightarrow> (string \<times> pyvalue) list
    \<Rightarrow> exc + (string \<times> pyvalue) list" where
  "bindparams L text [] = Inr []"
| "bindparams L text (kv # ps) =
     (if defines_bind L text (fst kv) then
        (case bindparams L text ps of
           Inl e \<Rightarrow> Inl e
         | Inr bs \<Rightarrow> Inr ((fst kv, translate_None (snd kv)) # bs))
      else Inl (Exc ArgumentError ''text does not define the bound parameter'' None))"

text \<open>
  \<open>str(statement.compile(compile_kwargs={"literal_binds": True}))\<close> (line 111): each bound
  value goes through \<open>process_literal_param\<close>, and the literals are put into the text.
\<close>

fun render_binds :: "dialect \<Rightarrow> (string \<times> pyvalue) list \<Rightarrow> exc + (string \<times> string) list" where
  "render_binds d [] = Inr []"
| "render_binds d (kv # bs) =
     (case process_literal_param d (snd kv) of
        Inl e \<Rightarrow> Inl e
      | Inr s \<Rightarrow> (case render_binds d bs of
                  Inl e \<Rightarrow> Inl e
                | Inr ls \<Rightarrow> Inr ((fst kv, s) # ls)))"

definition compile_statement :: "'db sqlalchemy \<Rightarrow> string \<Rightarrow> (string \<times> pyvalue) list
    \<Rightarrow> exc + string" where
  "compile_statement L text params =
     (case bindparams L text params of
        Inl e \<Rightarrow> Inl e
      | Inr bs \<Rightarrow> (case render_binds (compile_dialect L) bs of
                  Inl e \<Rightarrow> Inl e
                | Inr ls \<Rightarrow> literal_binds L text ls))"

text \<open>
  The shape of the return value (lines 119 to 137), once the statement has been executed
  with result \<open>result\<close> and left the database \<open>db\<close>.
\<close>

definition classify :: "'db sqlalchemy \<Rightarrow> 'db \<Rightarrow> string \<Rightarrow> db_result
    \<Rightarrow> (exc + pyvalue) \<times> 'db" where
  "classify L db statement result =
     (if re_search [''SELECT''] statement then
        (case fetchall result of
           Inl e \<Rightarrow> (Inl e, db)
         | Inr rows \<Rightarrow> (Inr (VList (map VDict rows)), db))
      else if re_search [''INSERT''] statement then
        (if backend_name L = ''postgresql'' then
           (case engine_execute L db ''SELECT LASTVAL()'' of
              (Inl e, db') \<Rightarrow> (Inl e, db')
            | (Inr result', db') \<Rightarrow> (first_item0 result', db'))
         else (Inr (lastrowid result), db))
      else if re_search [''DELETE'', ''UPDATE''] statement then
        (Inr (VInt (rowcount result)), db)
      else (Inr (VBool True), db))"

text \<open>The body of the \<open>try\<close> statement (lines 93 to 137).\<close>

definition execute_try :: "'db sqlalchemy \<Rightarrow> 'db \<Rightarrow> string \<Rightarrow> (string \<times> pyvalue) list
    \<Rightarrow> (exc + pyvalue) \<times> 'db" where
  "execute_try L db text params =
     (case compile_statement L text params of
        Inl e \<Rightarrow> (Inl e, db)
      | Inr statement \<Rightarrow>
          (case engine_execute L db statement of
             (Inl e, db') \<Rightarrow> (Inl e, db')
           | (Inr result, db') \<Rightarrow> classify L db' statement result))"

text \<open>
  \<open>SQL.execute\<close>: the \<open>try\<close> with its two handlers (lines 140 to 146). The call to the
  logger (line 117) has no part in the value returned and is left out.
\<close>

definition execute :: "'db sqlalchemy \<Rightarrow> 'db \<Rightarrow> string \<Rightarrow> (string \<times> pyvalue) list
    \<Rightarrow> (exc + pyvalue) \<times> 'db" where
  "execute L db text params =
     (case execute_try L db text params of
        (Inl e, db') \<Rightarrow>
          (if isinstance_IntegrityError e then (Inr VNone, db')
           else (Inl (clear_cause e), db'))
      | (Inr v, db') \<Rightarrow> (Inr v, db'))"

section \<open>The kinds of value the specification names\<close>

text \<open>
  The supported scalar kinds, as the specification lists them: boolean, date, datetime,
  time, float, integer, text and null. Null is the \<open>NULL\<close> that \<open>execute\<close> puts in the
  place of a parameter that is \<open>None\<close>.
\<close>

fun supported_scalar :: "pyvalue \<Rightarrow> bool" where
  "supported_scalar (VBool b) = True"
| "supported_scalar (VDate d) = True"
| "supported_scalar (VDatetime d t) = True"
| "supported_scalar (VTime t) = True"
| "supported_scalar (VFloat x) = True"
| "supported_scalar (VInt n) = True"
| "supported_scalar (VStr s) = True"
| "supported_scalar VNull = True"
| "supported_scalar v = False"

text \<open>A supported scalar, or a list of supported scalars.\<close>

definition accepted :: "pyvalue \<Rightarrow> bool" where
  "accepted v =
     (supported_scalar v \<or> (type_is_list v \<and> list_all supported_scalar (list_of v)))"


section \<open>A sample dialect and engine\<close>

text \<open>
  One instance of the parameters, on which the theorems below are evaluated: a dialect
  that writes booleans as 1 and 0 and doubles the quotes of a string, and an engine over a
  table \<open>t\<close> with a unique column \<open>id\<close>, its database being the list of the ids stored.
\<close>

definition show_int :: "int \<Rightarrow> string" where
  "show_int i = (if i < 0 then CHR ''-'' # digits (nat (- i)) else digits (nat i))"

definition quote :: "string \<Rightarrow> string" where
  "quote s =
     [CHR 0x27] @ concat (map (\<lambda>c. if c = CHR 0x27 then [c, c] else [c]) s) @ [CHR 0x27]"

definition show_float :: "pyfloat \<Rightarrow> string" where
  "show_float x =
     (case x of
        Finite m e \<Rightarrow>
          (if 0 \<le> e then show_int (m * 2 ^ nat e) @ ''.0''
           else ''('' @ show_int m @ ''.0 / '' @ show_int (2 ^ nat (- e)) @ ''.0)'')
      | Inf neg \<Rightarrow> (if neg then ''-inf'' else ''inf'')
      | NaN \<Rightarrow> ''nan'')"

definition sample_dialect :: dialect where
  "sample_dialect =
     \<lparr> Boolean_literal = (\<lambda>b. if b then ''1'' else ''0''),
       String_literal = quote,
       Float_literal = show_float,
       Integer_literal = show_int,
       NullType_literal = ''NULL'' \<rparr>"

definition is_word :: "char \<Rightarrow> bool" where
  "is_word c =
     (let n = (of_char c :: nat)
      in (48 \<le> n \<and> n \<le> 57) \<or> (65 \<le> n \<and> n \<le> 90) \<or> n = 95 \<or> (97 \<le> n \<and> n \<le> 122))"

text \<open>A text cut into its plain characters and its bound parameters \<open>:name\<close>.\<close>

function tokens :: "string \<Rightarrow> (char + string) list" where
  "tokens [] = []"
| "tokens (c # cs) =
     (if c = CHR '':'' \<and> takeWhile is_word cs \<noteq> []
      then Inr (takeWhile is_word cs) # tokens (dropWhile is_word cs)
      else Inl c # tokens cs)"
  by pat_completeness auto
termination
  by (relation "measure length") (auto simp: length_dropWhile_le less_Suc_eq_le)

definition sample_defines_bind :: "string \<Rightarrow> string \<Rightarrow> bool" where
  "sample_defines_bind text key = (Inr key \<in> set (tokens text))"

definition sample_literal_binds :: "string \<Rightarrow> (string \<times> string) list \<Rightarrow> exc + string" where
  "sample_literal_binds text lits =
     Inr (concat (map (\<lambda>t. case t of
                             Inl c \<Rightarrow> [c]
                           | Inr name \<Rightarrow> (case map_of lits name of
                                            Some l \<Rightarrow> l
                                          | None \<Rightarrow> CHR '':'' # name))
                      (tokens text)))"

definition with_rows :: "row list \<Rightarrow> db_result" where
  "with_rows rows = \<lparr> fetchall = Inr rows, lastrowid = VInt 0, rowcount = - 1 \<rparr>"

definition without_rows :: "int \<Rightarrow> int \<Rightarrow> db_result" where
  "without_rows key n =
     \<lparr> fetchall = Inl (Exc ResourceClosedError ''This result object does not return rows'' None),
       lastrowid = VInt key, rowcount = n \<rparr>"

definition sample_execute :: "int list \<Rightarrow> string \<Rightarrow> (exc + db_result) \<times> int list" where
  "sample_execute db statement =
     (if statement = ''SELECT id FROM t'' \<or> statement = ''SELECT*FROM t'' then
        (Inr (with_rows (map (\<lambda>i. [(''id'', VInt i)]) db)), db)
      else if statement = ''INSERT INTO t (id) VALUES (7)'' then
        (if 7 \<in> set db then
           (Inl (Exc IntegrityError ''UNIQUE constraint failed: t.id''
                  (Some (Exc (OtherException ''sqlite3.IntegrityError'')
                           ''UNIQUE constraint failed: t.id'' None))), db)
         else (Inr (without_rows 7 1), db @ [7]))
      else if statement = ''SELECT LASTVAL()'' then
        (if db = [] then (Inl (Exc OperationalError ''lastval is not yet defined'' None), db)
         else (Inr (with_rows [[(''lastval'', VInt (last db))]]), db))
      else if statement = ''DELETE FROM t'' then (Inr (without_rows 0 (int (length db))), [])
      else if statement = ''CREATE TABLE u (id INTEGER)'' then (Inr (without_rows 0 (- 1)), db)
      else
        (Inl (Exc ProgrammingError ''syntax error''
               (Some (Exc (OtherException ''sqlite3.OperationalError'') ''syntax error'' None))),
         db))"

definition sample :: "string \<Rightarrow> int list sqlalchemy" where
  "sample name =
     \<lparr> compile_dialect = sample_dialect,
       defines_bind = sample_defines_bind,
       literal_binds = sample_literal_binds,
       backend_name = name,
       engine_execute = sample_execute \<rparr>"



section \<open>The scalar dispatch\<close>

lemma process_scalar [simp]:
  "process d (VBool b) = Inr (Boolean_literal d b)"
  "process d (VDate x) = Inr (String_literal d (strftime (VDate x) ''%Y-%m-%d''))"
  "process d (VDatetime x t) = Inr (String_literal d (strftime (VDatetime x t) ''%Y-%m-%d''))"
  "process d (VTime t) = Inr (String_literal d (strftime (VTime t) ''%H:%M:%S''))"
  "process d (VFloat f) = Inr (Float_literal d f)"
  "process d (VInt n) = Inr (Integer_literal d n)"
  "process d (VStr s) = Inr (String_literal d s)"
  "process d VNull = Inr (NullType_literal d)"
  by (simp_all add: process_def)

lemma process_unsupported [simp]:
  "process d VNone = Inl (Exc RuntimeError ''unsupported value'' None)"
  "process d (VList vs) = Inl (Exc RuntimeError ''unsupported value'' None)"
  "process d (VDict kvs) = Inl (Exc RuntimeError ''unsupported value'' None)"
  "process d (VOther c) = Inl (Exc RuntimeError ''unsupported value'' None)"
  by (simp_all add: process_def sys_version_info_major_def)

lemma process_supported: "supported_scalar v \<Longrightarrow> \<exists>s. process d v = Inr s"
  by (cases v) simp_all

lemma process_not_supported:
  "\<not> supported_scalar v \<Longrightarrow> process d v = Inl (Exc RuntimeError ''unsupported value'' None)"
  by (cases v) simp_all

lemma process_each_supported:
  "list_all supported_scalar vs \<Longrightarrow> \<exists>ss. process_each d vs = Inr ss"
proof (induction vs)
  case Nil
  show ?case by simp
next
  case (Cons v vs)
  then obtain s ss where "process d v = Inr s" "process_each d vs = Inr ss"
    using process_supported [of v d] by auto
  then show ?case by simp
qed

lemma process_each_not_supported:
  "\<not> list_all supported_scalar vs \<Longrightarrow>
   process_each d vs = Inl (Exc RuntimeError ''unsupported value'' None)"
proof (induction vs)
  case Nil
  then show ?case by simp
next
  case (Cons v vs)
  show ?case
  proof (cases "supported_scalar v")
    case True
    with Cons have "process_each d vs = Inl (Exc RuntimeError ''unsupported value'' None)"
      by simp
    moreover obtain s where "process d v = Inr s"
      using True process_supported by blast
    ultimately show ?thesis by simp
  next
    case False
    then show ?thesis by (simp add: process_not_supported)
  qed
qed

lemma process_each_map:
  "map (process d) vs = map Inr lits \<Longrightarrow> process_each d vs = Inr lits"
proof (induction vs arbitrary: lits)
  case Nil
  then show ?case by simp
next
  case (Cons v vs)
  then obtain l ls where "lits = l # ls" by (cases lits) auto
  with Cons show ?case by auto
qed

lemma process_each_fails:
  assumes "v \<in> set vs" and "\<forall>s. process d v \<noteq> Inr s"
  shows "process_each d vs = Inl (Exc RuntimeError ''unsupported value'' None)"
proof -
  from assms have "\<not> supported_scalar v" using process_supported by blast
  with assms have "\<not> list_all supported_scalar vs" by (auto simp: list_all_iff)
  then show ?thesis by (rule process_each_not_supported)
qed

lemma renderer_accepted:
  assumes "accepted v"
  shows "\<exists>s. process_literal_param d v = Inr s"
proof (cases "type_is_list v")
  case True
  then obtain vs where v: "v = VList vs" by (cases v) auto
  with assms have "list_all supported_scalar vs" by (simp add: accepted_def)
  then obtain ss where "process_each d vs = Inr ss" using process_each_supported by blast
  with v show ?thesis by (simp add: process_literal_param_def)
next
  case False
  with assms have "supported_scalar v" by (simp add: accepted_def)
  with False show ?thesis
    using process_supported [of v d] by (simp add: process_literal_param_def)
qed

lemma renderer_rejected:
  assumes "\<not> accepted v"
  shows "process_literal_param d v = Inl (Exc RuntimeError ''unsupported value'' None)"
proof (cases "type_is_list v")
  case True
  then obtain vs where v: "v = VList vs" by (cases v) auto
  with assms have "\<not> list_all supported_scalar vs" by (simp add: accepted_def)
  with v show ?thesis by (simp add: process_literal_param_def process_each_not_supported)
next
  case False
  with assms have "\<not> supported_scalar v" by (simp add: accepted_def)
  with False show ?thesis by (simp add: process_literal_param_def process_not_supported)
qed

text \<open>
  A datetime is an instance of \<open>datetime.date\<close>, so the date branch takes it and the
  datetime branch below is never reached: the time of day has no part in the literal.
\<close>

lemma datetime_as_date:
  "process_literal_param d (VDatetime x t) = process_literal_param d (VDate x)"
  by (simp add: process_literal_param_def directive_def)

section \<open>Properties of the literal renderer\<close>

text \<open>
  C3, at the datetime 2020-01-02 03:04:05: the renderer writes the literal of the date
  2020-01-02, the same literal as for midnight of that day, so no reading of the literal
  gives the value back.
\<close>

theorem datetime_literal_drops_time:
  "process_literal_param sample_dialect (VDatetime (Date 2020 1 2) (Time 3 4 5 0)) =
     Inr (quote ''2020-01-02'') \<and>
   process_literal_param sample_dialect (VDatetime (Date 2020 1 2) (Time 0 0 0 0)) =
     Inr (quote ''2020-01-02'')"
  by code_simp

text \<open>
  C7 as stated fails: the list of the integers 1 and 2 is not of a supported scalar kind,
  and the renderer produces a literal for it.
\<close>

theorem list_rendered_counterexample:
  "\<not> supported_scalar (VList [VInt 1, VInt 2]) \<and>
   process_literal_param sample_dialect (VList [VInt 1, VInt 2]) = Inr ''1, 2''"
  by code_simp

text \<open>
  C7, amended: the renderer produces a literal exactly when the value is of a supported
  scalar kind or is a list whose elements all are; for every other value it raises
  \<open>RuntimeError("unsupported value")\<close>.
\<close>

theorem renderer_accepts_iff:
  "(accepted v \<longrightarrow> (\<exists>s. process_literal_param d v = Inr s)) \<and>
   (\<not> accepted v \<longrightarrow>
      process_literal_param d v = Inl (Exc RuntimeError ''unsupported value'' None))"
  using renderer_accepted [of v d] renderer_rejected [of v d] by blast

theorem renderer_accepts_iff_witness:
  "(\<exists>s. process_literal_param sample_dialect (VList [VInt 1, VStr ''a'']) = Inr s) \<and>
   process_literal_param sample_dialect (VList [VNone]) =
     Inl (Exc RuntimeError ''unsupported value'' None)"
proof -
  have a: "accepted (VList [VInt 1, VStr ''a''])" by (simp add: accepted_def)
  have b: "\<not> accepted (VList [VNone])" by (simp add: accepted_def)
  from a b renderer_accepts_iff [of "VList [VInt 1, VStr ''a'']" sample_dialect]
    renderer_accepts_iff [of "VList [VNone]" sample_dialect]
  show ?thesis by blast
qed

text \<open>\<open>sep.join\<close> puts the separator before every element but the first.\<close>

lemma join_Cons:
  "join sep (l # ls) = l @ concat (map (\<lambda>x. sep @ x) ls)"
  by (induction ls arbitrary: l) simp_all

text \<open>
  C9: for a list, each element is rendered by the scalar dispatch \<open>process\<close>, and the
  result is the first literal followed by every further literal with a comma and a space
  before it (the empty text for the empty list); an element the dispatch rejects makes
  the renderer raise.
\<close>

theorem list_rendered_elementwise:
  "(map (process d) vs = map Inr lits \<longrightarrow>
      process_literal_param d (VList vs) =
        Inr (case lits of
               [] \<Rightarrow> []
             | l # ls \<Rightarrow> l @ concat (map (\<lambda>x. '', '' @ x) ls))) \<and>
   ((\<exists>v \<in> set vs. \<forall>s. process d v \<noteq> Inr s) \<longrightarrow>
      process_literal_param d (VList vs) = Inl (Exc RuntimeError ''unsupported value'' None))"
proof (intro conjI impI)
  assume m: "map (process d) vs = map Inr lits"
  then have "process_each d vs = Inr lits" by (rule process_each_map)
  then have r: "process_literal_param d (VList vs) = Inr (join '', '' lits)"
    by (simp add: process_literal_param_def)
  have j: "join '', '' lits =
           (case lits of [] \<Rightarrow> [] | l # ls \<Rightarrow> l @ concat (map (\<lambda>x. '', '' @ x) ls))"
    by (cases lits) (simp_all only: join.simps join_Cons list.case)
  from r show "process_literal_param d (VList vs) =
        Inr (case lits of
               [] \<Rightarrow> []
             | l # ls \<Rightarrow> l @ concat (map (\<lambda>x. '', '' @ x) ls))"
    by (simp only: j)
next
  assume "\<exists>v \<in> set vs. \<forall>s. process d v \<noteq> Inr s"
  then show "process_literal_param d (VList vs) =
             Inl (Exc RuntimeError ''unsupported value'' None)"
    by (auto simp: process_literal_param_def process_each_fails)
qed

theorem list_rendered_elementwise_witness:
  "process_literal_param sample_dialect (VList [VInt 1, VInt 22, VBool True]) =
     Inr ''1, 22, 1'' \<and>
   process_literal_param sample_dialect (VList [VInt 1, VStr ''a'']) =
     Inr [CHR ''1'', CHR '','', CHR '' '', CHR 0x27, CHR ''a'', CHR 0x27] \<and>
   process_literal_param sample_dialect (VList [VInt 5]) = Inr ''5'' \<and>
   process_literal_param sample_dialect (VList []) = Inr [] \<and>
   process_literal_param sample_dialect (VList [VInt 1, VNone]) =
     Inl (Exc RuntimeError ''unsupported value'' None)"
proof -
  have m1: "map (process sample_dialect) [VInt 1, VInt 22, VBool True] =
            map Inr [''1'', ''22'', ''1'']"
    by code_simp
  have m2: "map (process sample_dialect) [VInt 1, VStr ''a''] =
            map Inr [''1'', [CHR 0x27, CHR ''a'', CHR 0x27]]"
    by code_simp
  have m3: "map (process sample_dialect) [VInt 5] = map Inr [''5'']"
    by code_simp
  have m4: "map (process sample_dialect) [] = map Inr []"
    by simp
  have f: "\<exists>v \<in> set [VInt 1, VNone]. \<forall>s. process sample_dialect v \<noteq> Inr s"
    by simp
  have a1: "process_literal_param sample_dialect (VList [VInt 1, VInt 22, VBool True]) =
              Inr ''1, 22, 1''"
    using m1 list_rendered_elementwise [of sample_dialect "[VInt 1, VInt 22, VBool True]"
        "[''1'', ''22'', ''1'']"]
    by simp
  have a2: "process_literal_param sample_dialect (VList [VInt 1, VStr ''a'']) =
              Inr [CHR ''1'', CHR '','', CHR '' '', CHR 0x27, CHR ''a'', CHR 0x27]"
    using m2 list_rendered_elementwise [of sample_dialect "[VInt 1, VStr ''a'']"
        "[''1'', [CHR 0x27, CHR ''a'', CHR 0x27]]"]
    by simp
  have a3: "process_literal_param sample_dialect (VList [VInt 5]) = Inr ''5''"
    using m3 list_rendered_elementwise [of sample_dialect "[VInt 5]" "[''5'']"]
    by simp
  have a4: "process_literal_param sample_dialect (VList []) = Inr []"
    using m4 list_rendered_elementwise [of sample_dialect "[]" "[]"]
    by simp
  have a5: "process_literal_param sample_dialect (VList [VInt 1, VNone]) =
              Inl (Exc RuntimeError ''unsupported value'' None)"
    using f list_rendered_elementwise [of sample_dialect "[VInt 1, VNone]"]
    by blast
  from a1 a2 a3 a4 a5 show ?thesis by simp
qed

text \<open>
  C10: a boolean is an instance of \<open>int\<close>, and the renderer gives it to the dialect's
  Boolean processor, never to the Integer one: the boolean test comes first.
\<close>

theorem bool_rendered_as_boolean:
  "isinstance_int (VBool b) \<and>
   process_literal_param d (VBool b) = Inr (Boolean_literal d b)"
  by (simp add: process_literal_param_def)

section \<open>The statement kinds exclude one another\<close>

lemma lower_neq:
  "lower (CHR ''S'') \<noteq> lower (CHR ''I'')"
  "lower (CHR ''S'') \<noteq> lower (CHR ''D'')"
  "lower (CHR ''S'') \<noteq> lower (CHR ''U'')"
  "lower (CHR ''I'') \<noteq> lower (CHR ''D'')"
  "lower (CHR ''I'') \<noteq> lower (CHR ''U'')"
  by (simp_all add: lower_def)

lemma keyword_space_Cons:
  "keyword_space (k # ks) s \<Longrightarrow> \<exists>c cs. s = c # cs \<and> lower c = lower k"
  by (cases s) (auto simp: keyword_space_def split: if_splits)

lemma keyword_space_exclusive:
  assumes "keyword_space (k # ks) s" and "lower k \<noteq> lower k'"
  shows "\<not> keyword_space (k' # ks') s"
  using assms keyword_space_Cons [of k ks s] keyword_space_Cons [of k' ks' s] by auto


lemma delete_update_not_select:
  "re_search [''DELETE'', ''UPDATE''] s \<Longrightarrow> \<not> re_search [''SELECT''] s"
  using keyword_space_exclusive [of "CHR ''D''" "''ELETE''" _ "CHR ''S''" "''ELECT''"]
    keyword_space_exclusive [of "CHR ''U''" "''PDATE''" _ "CHR ''S''" "''ELECT''"] lower_neq
  by (auto simp: re_search_def)

lemma delete_update_not_insert:
  "re_search [''DELETE'', ''UPDATE''] s \<Longrightarrow> \<not> re_search [''INSERT''] s"
  using keyword_space_exclusive [of "CHR ''D''" "''ELETE''" _ "CHR ''I''" "''NSERT''"]
    keyword_space_exclusive [of "CHR ''U''" "''PDATE''" _ "CHR ''I''" "''NSERT''"] lower_neq
  by (auto simp: re_search_def)


section \<open>Steps of execute\<close>

lemma execute_try_executed:
  assumes "compile_statement L text params = Inr statement"
    and "engine_execute L db statement = (Inr result, db')"
  shows "execute_try L db text params = classify L db' statement result"
  using assms by (simp add: execute_try_def)

lemma execute_of_try:
  "execute_try L db text params = (Inr v, db') \<Longrightarrow> execute L db text params = (Inr v, db')"
  by (simp add: execute_def)

lemma clear_cause_fields:
  "exc_cause (clear_cause e) = None"
  "exc_class (clear_cause e) = exc_class e"
  "exc_msg (clear_cause e) = exc_msg e"
  by (cases e, simp)+

text \<open>
  \<open>execute\<close> raises only what its \<open>try\<close> body raised, never an \<open>IntegrityError\<close>, and
  always with the cause cleared.
\<close>

lemma execute_raises_only:
  assumes "execute L db text params = (Inl e', db')"
  shows "\<exists>e. execute_try L db text params = (Inl e, db') \<and>
             \<not> isinstance_IntegrityError e \<and> e' = clear_cause e"
  using assms by (auto simp: execute_def split: prod.splits sum.splits if_splits)

lemma render_binds_fails:
  assumes "kv \<in> set bs" and "\<not> accepted (snd kv)"
  shows "render_binds d bs = Inl (Exc RuntimeError ''unsupported value'' None)"
  using assms
proof (induction bs)
  case Nil
  then show ?case by simp
next
  case (Cons b bs)
  show ?case
  proof (cases "accepted (snd b)")
    case True
    with Cons have "render_binds d bs = Inl (Exc RuntimeError ''unsupported value'' None)"
      by auto
    moreover obtain s where "process_literal_param d (snd b) = Inr s"
      using True renderer_accepted by blast
    ultimately show ?thesis by simp
  next
    case False
    then show ?thesis by (simp add: renderer_rejected)
  qed
qed

lemma bindparams_defined:
  "\<forall>kv \<in> set params. defines_bind L text (fst kv) \<Longrightarrow>
   bindparams L text params = Inr (map (\<lambda>kv. (fst kv, translate_None (snd kv))) params)"
  by (induction params) simp_all

text \<open>
  A parameter of an unsupported kind: nothing is executed, the database is as before and
  the \<open>RuntimeError\<close> of the renderer reaches the caller.
\<close>

lemma unsupported_param_raises:
  assumes "\<forall>kv \<in> set params. defines_bind L text (fst kv)"
    and "kv \<in> set params" and "\<not> accepted (translate_None (snd kv))"
  shows "execute L db text params = (Inl (Exc RuntimeError ''unsupported value'' None), db)"
proof -
  let ?bs = "map (\<lambda>kv. (fst kv, translate_None (snd kv))) params"
  have "(fst kv, translate_None (snd kv)) \<in> set ?bs" using assms(2) by force
  then have "render_binds (compile_dialect L) ?bs =
             Inl (Exc RuntimeError ''unsupported value'' None)"
    using assms(3) render_binds_fails by fastforce
  then show ?thesis
    using bindparams_defined [OF assms(1)]
    by (simp add: execute_def execute_try_def compile_statement_def)
qed

section \<open>Properties of execute\<close>




text \<open>
  C2: when executing the statement raises an \<open>IntegrityError\<close>, \<open>execute\<close> returns
  \<open>None\<close> and raises nothing.
\<close>

theorem integrity_error_returns_None:
  assumes "compile_statement L text params = Inr statement"
    and "engine_execute L db statement = (Inl e, db')"
    and "isinstance_IntegrityError e"
  shows "execute L db text params = (Inr VNone, db')"
  using assms by (simp add: execute_def execute_try_def)

theorem integrity_error_returns_None_witness:
  "execute (sample ''sqlite'') [3, 7] ''INSERT INTO t (id) VALUES (:id)'' [(''id'', VInt 7)] =
     (Inr VNone, [3, 7])"
proof -
  have c: "compile_statement (sample ''sqlite'') ''INSERT INTO t (id) VALUES (:id)''
             [(''id'', VInt 7)] = Inr ''INSERT INTO t (id) VALUES (7)''"
    by code_simp
  have e: "engine_execute (sample ''sqlite'') [3, 7] ''INSERT INTO t (id) VALUES (7)'' =
             (Inl (Exc IntegrityError ''UNIQUE constraint failed: t.id''
                    (Some (Exc (OtherException ''sqlite3.IntegrityError'')
                             ''UNIQUE constraint failed: t.id'' None))), [3, 7])"
    by code_simp
  show ?thesis by (rule integrity_error_returns_None [OF c e]) simp
qed




text \<open>
  C5: for an executed statement classified as DELETE or UPDATE, \<open>execute\<close> returns the
  row count of the result; it is 0 when the engine reports that no row was affected.
\<close>

theorem delete_update_returns_rowcount:
  assumes "compile_statement L text params = Inr statement"
    and "re_search [''DELETE'', ''UPDATE''] statement"
    and "engine_execute L db statement = (Inr result, db')"
  shows "execute L db text params = (Inr (VInt (rowcount result)), db')"
proof -
  have "classify L db' statement result = (Inr (VInt (rowcount result)), db')"
    using assms(2) delete_update_not_select [OF assms(2)] delete_update_not_insert [OF assms(2)]
    by (simp add: classify_def)
  with assms(1,3) show ?thesis by (simp add: execute_try_executed execute_of_try)
qed

theorem delete_update_returns_rowcount_witness:
  "execute (sample ''sqlite'') [3, 7] ''DELETE FROM t'' [] = (Inr (VInt 2), []) \<and>
   execute (sample ''sqlite'') [] ''DELETE FROM t'' [] = (Inr (VInt 0), [])"
proof -
  have c: "compile_statement (sample ''sqlite'') ''DELETE FROM t'' [] = Inr ''DELETE FROM t''"
    by code_simp
  have s: "re_search [''DELETE'', ''UPDATE''] ''DELETE FROM t''"
    by code_simp
  have e1: "engine_execute (sample ''sqlite'') [3, 7] ''DELETE FROM t'' =
            (Inr (without_rows 0 2), [])"
    by code_simp
  have e2: "engine_execute (sample ''sqlite'') [] ''DELETE FROM t'' =
            (Inr (without_rows 0 0), [])"
    by code_simp
  have r: "rowcount (without_rows k n) = n" for k n
    by (simp add: without_rows_def)
  from delete_update_returns_rowcount [OF c s e1] delete_update_returns_rowcount [OF c s e2] r
  show ?thesis by simp
qed

text \<open>
  C6: for an executed statement that none of the three tests classifies, \<open>execute\<close>
  returns \<open>True\<close>.
\<close>

theorem other_statement_returns_True:
  assumes "compile_statement L text params = Inr statement"
    and "\<not> re_search [''SELECT''] statement"
    and "\<not> re_search [''INSERT''] statement"
    and "\<not> re_search [''DELETE'', ''UPDATE''] statement"
    and "engine_execute L db statement = (Inr result, db')"
  shows "execute L db text params = (Inr (VBool True), db')"
proof -
  have "classify L db' statement result = (Inr (VBool True), db')"
    using assms(2,3,4) by (simp add: classify_def)
  with assms(1,5) show ?thesis by (simp add: execute_try_executed execute_of_try)
qed

theorem other_statement_returns_True_witness:
  "execute (sample ''sqlite'') [3] ''CREATE TABLE u (id INTEGER)'' [] = (Inr (VBool True), [3])"
proof -
  have c: "compile_statement (sample ''sqlite'') ''CREATE TABLE u (id INTEGER)'' [] =
           Inr ''CREATE TABLE u (id INTEGER)''"
    by code_simp
  have s1: "\<not> re_search [''SELECT''] ''CREATE TABLE u (id INTEGER)''" by code_simp
  have s2: "\<not> re_search [''INSERT''] ''CREATE TABLE u (id INTEGER)''" by code_simp
  have s3: "\<not> re_search [''DELETE'', ''UPDATE''] ''CREATE TABLE u (id INTEGER)''" by code_simp
  have e: "engine_execute (sample ''sqlite'') [3] ''CREATE TABLE u (id INTEGER)'' =
            (Inr (without_rows 0 (- 1)), [3])"
    by code_simp
  show ?thesis by (rule other_statement_returns_True [OF c s1 s2 s3 e])
qed

text \<open>
  C8: whenever the \<open>try\<close> body of \<open>execute\<close> raises, be it while the parameters are
  rendered, while the statement is executed or while the result is read, \<open>execute\<close> has one
  of two outcomes: it returns \<open>None\<close> when the exception is an \<open>IntegrityError\<close>, and
  otherwise raises that exception, of the same class and message, with its cause cleared.
\<close>

theorem failure_outcomes:
  assumes "execute_try L db text params = (Inl e, db')"
  shows "execute L db text params =
           (if isinstance_IntegrityError e then (Inr VNone, db')
            else (Inl (Exc (exc_class e) (exc_msg e) None), db'))"
  using assms by (cases e) (simp add: execute_def)

theorem failure_outcomes_witness:
  "execute (sample ''sqlite'') [3] ''SELEC id FROM t'' [] =
     (Inl (Exc ProgrammingError ''syntax error'' None), [3]) \<and>
   execute (sample ''sqlite'') [3] ''SELECT id FROM t WHERE id = :x''
       [(''x'', VOther ''bytes'')] =
     (Inl (Exc RuntimeError ''unsupported value'' None), [3]) \<and>
   execute (sample ''sqlite'') [3, 7] ''INSERT INTO t (id) VALUES (:id)'' [(''id'', VInt 7)] =
     (Inr VNone, [3, 7])"
proof -
  have t1: "execute_try (sample ''sqlite'') [3] ''SELEC id FROM t'' [] =
     (Inl (Exc ProgrammingError ''syntax error''
            (Some (Exc (OtherException ''sqlite3.OperationalError'') ''syntax error'' None))),
      [3])"
    by code_simp
  have t2: "execute_try (sample ''sqlite'') [3] ''SELECT id FROM t WHERE id = :x''
              [(''x'', VOther ''bytes'')] =
     (Inl (Exc RuntimeError ''unsupported value'' None), [3])"
    by code_simp
  have t3: "execute_try (sample ''sqlite'') [3, 7] ''INSERT INTO t (id) VALUES (:id)''
              [(''id'', VInt 7)] =
     (Inl (Exc IntegrityError ''UNIQUE constraint failed: t.id''
            (Some (Exc (OtherException ''sqlite3.IntegrityError'')
                     ''UNIQUE constraint failed: t.id'' None))), [3, 7])"
    by code_simp
  from failure_outcomes [OF t1] failure_outcomes [OF t2] failure_outcomes [OF t3]
  show ?thesis by simp
qed

end
